theory Spec2Isabelle
  imports Complex_Main "HOL-Library.Multiset"
begin

section \<open>Data model of stats.h\<close>

text \<open>
  The functions of \<^verbatim>\<open>stats.h\<close> are templates over a sample type \<^verbatim>\<open>T\<close>, documented as
  \<^verbatim>\<open>float\<close>, \<^verbatim>\<open>double\<close> or \<^verbatim>\<open>long double\<close>. The main embedding takes the real numbers for
  \<^verbatim>\<open>T\<close>: rounding and overflow of a machine format are not part of it (a second,
  separate embedding of \<open>mean\<close> at \<^verbatim>\<open>double\<close> follows further down). What the source
  leaves without a real value is a \<open>fault\<close>:
  \<^item> \<open>DivisionByZero\<close>: a division whose divisor is zero (NaN or an infinity in the
    floating arithmetic of the source);
  \<^item> \<open>InvalidRange\<close>: a read through an iterator that is not inside its container;
  \<^item> \<open>DomainError\<close>: a square root of a negative number (NaN in the source);
  \<^item> \<open>NoViableOverload\<close>: a call for which overload resolution finds no function, so
    that the template containing it has no instantiation.
\<close>

datatype fault = DivisionByZero | InvalidRange | DomainError | NoViableOverload

text \<open>\<^verbatim>\<open>enum class weight{sample, population};\<close>\<close>

datatype weight = sample | population

text \<open>
  A \<^verbatim>\<open>std::vector<T>\<close> is the list of its elements. An iterator into a container is a
  position in it: \<^verbatim>\<open>x.begin()\<close> is position \<open>0\<close> and \<^verbatim>\<open>x.end()\<close> is position \<open>length x\<close>.
  The iterator-pair overloads therefore take the container together with two positions.
\<close>

type_synonym iterator = nat

text \<open>
  Modelled from the spec: \<^verbatim>\<open>Signal.h\<close>, which declares \<^verbatim>\<open>dsp::Signal<T>\<close>, is not among
  the sources. The spec describes it as a buffer-like type with begin/end access that
  provides read-only forward iteration over its samples, so a signal is the list of
  its samples, iterated from position \<open>0\<close> to position \<open>length (samples x)\<close>.
\<close>

datatype Signal = Signal (samples: "real list")

section \<open>Library operations used by the source\<close>

text \<open>
  \<^verbatim>\<open>std::accumulate(first, last, init)\<close>: the loop
  \<^verbatim>\<open>for (; first != last; ++first) init = init + *first;\<close>.
  Reading \<^verbatim>\<open>*first\<close> at or beyond the end of the container has no defined value.
\<close>

function accumulate :: "real list \<Rightarrow> iterator \<Rightarrow> iterator \<Rightarrow> real \<Rightarrow> fault + real" where
  "accumulate c first lst init =
     (if first = lst then Inr init
      else if length c \<le> first then Inl InvalidRange
      else accumulate c (Suc first) lst (init + c ! first))"
  by pat_completeness auto
termination
  by (relation "measure (\<lambda>(c, first, lst, init). length c - first)") auto

declare accumulate.simps [simp del]

text \<open>
  \<^verbatim>\<open>std::transform_reduce(first, last, init, std::plus<T>(), f)\<close>: the sum of \<open>init\<close> and of
  \<open>f\<close> applied to every element of the range. The standard leaves the grouping of the
  additions open; over the reals every grouping gives the same sum, and the embedding
  adds from left to right.
\<close>

function transform_reduce ::
  "real list \<Rightarrow> iterator \<Rightarrow> iterator \<Rightarrow> real \<Rightarrow> (real \<Rightarrow> real) \<Rightarrow> fault + real" where
  "transform_reduce c first lst init f =
     (if first = lst then Inr init
      else if length c \<le> first then Inl InvalidRange
      else transform_reduce c (Suc first) lst (init + f (c ! first)) f)"
  by pat_completeness auto
termination
  by (relation "measure (\<lambda>(c, first, lst, init, f). length c - first)") auto

declare transform_reduce.simps [simp del]

text \<open>
  \<^verbatim>\<open>std::distance(first, last)\<close> on random-access iterators: the signed difference of the
  two positions (a \<^verbatim>\<open>ptrdiff_t\<close>).
\<close>

definition distance :: "iterator \<Rightarrow> iterator \<Rightarrow> int" where
  "distance first lst = int lst - int first"

text \<open>The division \<^verbatim>\<open>a / d\<close> of the sample type: no value when the divisor is zero.\<close>

definition quotient :: "real \<Rightarrow> real \<Rightarrow> fault + real" where
  "quotient a d = (if d = 0 then Inl DivisionByZero else Inr (a / d))"

text \<open>\<^verbatim>\<open>std::sqrt\<close>: no real value (NaN in the source) for a negative argument.\<close>

definition c_sqrt :: "real \<Rightarrow> fault + real" where
  "c_sqrt v = (if v < 0 then Inl DomainError else Inr (sqrt v))"

section \<open>mean\<close>

text \<open>
  \<^verbatim>\<open>auto sum = std::accumulate(begin, end, T(0)); return sum / std::distance(begin, end);\<close>
\<close>

definition mean :: "real list \<Rightarrow> iterator \<Rightarrow> iterator \<Rightarrow> fault + real" where
  "mean c b e =
     (case accumulate c b e 0 of
        Inl f \<Rightarrow> Inl f
      | Inr s \<Rightarrow> quotient s (real_of_int (distance b e)))"

text \<open>\<^verbatim>\<open>return mean<T>(x.begin(), x.end());\<close> for a vector and for a signal.\<close>

definition mean_vector :: "real list \<Rightarrow> fault + real" where
  "mean_vector x = mean x 0 (length x)"

definition mean_Signal :: "Signal \<Rightarrow> fault + real" where
  "mean_Signal x = mean (samples x) 0 (length (samples x))"

section \<open>var\<close>

text \<open>
  A parameter declared \<^verbatim>\<open>weight w = weight::sample\<close>: a call either passes a weight
  (\<open>Some w\<close>) or omits the argument (\<open>None\<close>), and then \<open>sample\<close> is taken.
\<close>

definition weight_arg :: "weight option \<Rightarrow> weight" where
  "weight_arg w = (case w of None \<Rightarrow> sample | Some v \<Rightarrow> v)"

text \<open>
  \<^verbatim>\<open>auto mu = mean<T>(begin, end);\<close>
  \<^verbatim>\<open>auto sum = std::transform_reduce(begin, end, T(0), std::plus<T>(),\<close>
  \<^verbatim>\<open>                                 [mu](auto x) {return std::pow(x - mu, 2); });\<close>
  The division inside \<open>mean\<close> does not stop the function. On an empty range \<open>mu\<close> has
  no value (\<open>0/0\<close>, NaN), but the lambda that captures it is never called and the sum is
  \<^verbatim>\<open>T(0)\<close>. A \<open>mu\<close> without value on a range that is not empty only arises from a read
  outside the container, and the sum has no value either.
\<close>

definition squares_sum ::
  "real list \<Rightarrow> iterator \<Rightarrow> iterator \<Rightarrow> fault + real \<Rightarrow> fault + real" where
  "squares_sum c b e m =
     (case m of
        Inr mu \<Rightarrow> transform_reduce c b e 0 (\<lambda>x. (x - mu) ^ 2)
      | Inl f \<Rightarrow> if b = e then Inr 0 else Inl f)"

text \<open>
  \<^verbatim>\<open>if(w == weight::sample) { return sum / (std::distance(begin, end) - 1); }\<close>
  \<^verbatim>\<open>return sum / static_cast<T>(std::distance(begin, end));\<close>
  The subtraction \<open>distance b e - 1\<close> is one of signed integers, before the conversion to
  the sample type: on an empty range the sample divisor is \<open>-1\<close>, not \<open>0\<close>.
\<close>

definition var :: "real list \<Rightarrow> iterator \<Rightarrow> iterator \<Rightarrow> weight option \<Rightarrow> fault + real" where
  "var c b e w =
     (case squares_sum c b e (mean c b e) of
        Inl f \<Rightarrow> Inl f
      | Inr s \<Rightarrow>
          if weight_arg w = sample
          then quotient s (real_of_int (distance b e - 1))
          else quotient s (real_of_int (distance b e)))"

text \<open>\<^verbatim>\<open>return var<T>(x.begin(), x.end(), w);\<close> for a vector and for a signal.\<close>

definition var_vector :: "real list \<Rightarrow> weight option \<Rightarrow> fault + real" where
  "var_vector x w = var x 0 (length x) (Some (weight_arg w))"

definition var_Signal :: "Signal \<Rightarrow> weight option \<Rightarrow> fault + real" where
  "var_Signal x w = var (samples x) 0 (length (samples x)) (Some (weight_arg w))"

section \<open>std\<close>

text \<open>
  \<^verbatim>\<open>return std::sqrt(var(begin, end, w));\<close>
  This call of \<open>var\<close> names no sample type, unlike the other calls in the file
  (\<^verbatim>\<open>var<T>\<close>, \<^verbatim>\<open>mean<T>\<close>, \<^verbatim>\<open>std<T>\<close>). Of the three overloads of \<open>var\<close> only the
  iterator-pair template takes three arguments, and its parameter \<^verbatim>\<open>T\<close> occurs only in
  the return type, so it cannot be deduced from the arguments: the call has no viable
  overload, whatever its arguments are.
\<close>

definition var_undeduced ::
  "real list \<Rightarrow> iterator \<Rightarrow> iterator \<Rightarrow> weight option \<Rightarrow> fault + real" where
  "var_undeduced c b e w = Inl NoViableOverload"

text \<open>
  The body of \<open>std\<close> is the square root of that call. The vector and the signal form
  call \<^verbatim>\<open>std<T>(x.begin(), x.end(), w)\<close> and so instantiate this body.
\<close>

definition std :: "real list \<Rightarrow> iterator \<Rightarrow> iterator \<Rightarrow> weight option \<Rightarrow> fault + real" where
  "std c b e w =
     (case var_undeduced c b e (Some (weight_arg w)) of
        Inl f \<Rightarrow> Inl f
      | Inr v \<Rightarrow> c_sqrt v)"

text \<open>\<^verbatim>\<open>return std<T>(x.begin(), x.end(), w);\<close> for a vector and for a signal.\<close>

definition std_vector :: "real list \<Rightarrow> weight option \<Rightarrow> fault + real" where
  "std_vector x w = std x 0 (length x) (Some (weight_arg w))"

definition std_Signal :: "Signal \<Rightarrow> weight option \<Rightarrow> fault + real" where
  "std_Signal x w = std (samples x) 0 (length (samples x)) (Some (weight_arg w))"

section \<open>mean at the sample type double\<close>

text \<open>
  A value of \<^verbatim>\<open>double\<close> (IEEE 754 binary64) is a finite number, an infinity or NaN. The
  two zeros are not told apart: their sign changes no sum and no quotient by a count.
\<close>

datatype double = Finite real | PlusInf | MinusInf | NaN

text \<open>The largest finite value, \<^verbatim>\<open>(2^53 - 1) * 2^971\<close>.\<close>

definition double_max :: real where
  "double_max = (2 ^ 53 - 1) * 2 ^ 971"

text \<open>The integer nearest to \<open>q\<close>, the even one of two that are equally near.\<close>

definition nearest_even :: "real \<Rightarrow> int" where
  "nearest_even q =
     (let n = \<lfloor>q\<rfloor>; r = q - of_int n
      in if r < 1 / 2 then n else if 1 / 2 < r then n + 1 else if even n then n else n + 1)"

text \<open>
  The binary exponent of the unit in the last place of \<open>x\<close>: 53 significant bits, and
  never below the exponent \<open>-1074\<close> of the subnormal numbers.
\<close>

definition ulp_exponent :: "real \<Rightarrow> int" where
  "ulp_exponent x = max \<lfloor>log 2 \<bar>x\<bar>\<rfloor> (- 1022) - 52"

text \<open>
  Rounding to nearest, ties to even: the exact result is rounded to a multiple of its
  unit in the last place, and a rounded magnitude above \<open>double_max\<close> becomes an infinity.
\<close>

definition round_double :: "real \<Rightarrow> double" where
  "round_double x =
     (if x = 0 then Finite 0
      else let u = 2 powi ulp_exponent x; y = of_int (nearest_even (x / u)) * u
           in if double_max < y then PlusInf
              else if y < - double_max then MinusInf
              else Finite y)"

text \<open>\<^verbatim>\<open>a + b\<close> at \<^verbatim>\<open>double\<close>.\<close>

fun double_add :: "double \<Rightarrow> double \<Rightarrow> double" where
  "double_add (Finite a) (Finite b) = round_double (a + b)"
| "double_add NaN y = NaN"
| "double_add x NaN = NaN"
| "double_add PlusInf MinusInf = NaN"
| "double_add MinusInf PlusInf = NaN"
| "double_add PlusInf y = PlusInf"
| "double_add x PlusInf = PlusInf"
| "double_add MinusInf y = MinusInf"
| "double_add x MinusInf = MinusInf"

text \<open>
  \<^verbatim>\<open>a / b\<close> at \<^verbatim>\<open>double\<close>, for a divisor that is a converted count: a zero divisor is
  the positive zero.
\<close>

fun double_div :: "double \<Rightarrow> double \<Rightarrow> double" where
  "double_div NaN y = NaN"
| "double_div x NaN = NaN"
| "double_div (Finite a) (Finite b) =
     (if b = 0 then (if a = 0 then NaN else if 0 < a then PlusInf else MinusInf)
      else round_double (a / b))"
| "double_div (Finite a) y = Finite 0"
| "double_div PlusInf (Finite b) = (if 0 \<le> b then PlusInf else MinusInf)"
| "double_div MinusInf (Finite b) = (if 0 \<le> b then MinusInf else PlusInf)"
| "double_div x y = NaN"

text \<open>\<^verbatim>\<open>std::accumulate\<close> over a container of doubles: the same loop as above.\<close>

function accumulate_double ::
  "double list \<Rightarrow> iterator \<Rightarrow> iterator \<Rightarrow> double \<Rightarrow> fault + double" where
  "accumulate_double c first lst init =
     (if first = lst then Inr init
      else if length c \<le> first then Inl InvalidRange
      else accumulate_double c (Suc first) lst (double_add init (c ! first)))"
  by pat_completeness auto
termination
  by (relation "measure (\<lambda>(c, first, lst, init). length c - first)") auto

declare accumulate_double.simps [simp del]

text \<open>
  \<open>mean\<close> with \<^verbatim>\<open>T = double\<close>: the sum starts from \<^verbatim>\<open>T(0)\<close>, and the count is converted
  to \<^verbatim>\<open>double\<close> for the division, which always returns a value of the type.
\<close>

definition mean_double :: "double list \<Rightarrow> iterator \<Rightarrow> iterator \<Rightarrow> fault + double" where
  "mean_double c b e =
     (case accumulate_double c b e (Finite 0) of
        Inl f \<Rightarrow> Inl f
      | Inr s \<Rightarrow> Inr (double_div s (round_double (real_of_int (distance b e)))))"

section \<open>The sequence denoted by a range, and the reference formulas\<close>

text \<open>The elements of container \<open>c\<close> from position \<open>b\<close> up to, not including, position \<open>e\<close>.\<close>

definition elements :: "real list \<Rightarrow> iterator \<Rightarrow> iterator \<Rightarrow> real list" where
  "elements c b e = take (e - b) (drop b c)"

text \<open>
  The mathematical definitions that the results are compared with: the arithmetic mean,
  the sum of squared deviations from it, and that sum divided by \<open>N - 1\<close> (sample) or by
  \<open>N\<close> (population).
\<close>

definition arithmetic_mean :: "real list \<Rightarrow> real" where
  "arithmetic_mean xs = sum_list xs / real (length xs)"

definition squared_deviations :: "real list \<Rightarrow> real" where
  "squared_deviations xs = (\<Sum>x\<leftarrow>xs. (x - arithmetic_mean xs) ^ 2)"

definition variance_formula :: "real list \<Rightarrow> weight \<Rightarrow> real" where
  "variance_formula xs w =
     (case w of
        sample \<Rightarrow> squared_deviations xs / (real (length xs) - 1)
      | population \<Rightarrow> squared_deviations xs / real (length xs))"

text \<open>The size that the chosen weighting asks of the sequence.\<close>

definition well_sized :: "real list \<Rightarrow> weight \<Rightarrow> bool" where
  "well_sized xs w = (case w of sample \<Rightarrow> 2 \<le> length xs | population \<Rightarrow> 1 \<le> length xs)"

section \<open>Ranges and the two loops\<close>

lemma elements_whole: "elements x 0 (length x) = x"
  by (simp add: elements_def)

lemma length_elements: "b \<le> e \<Longrightarrow> e \<le> length c \<Longrightarrow> length (elements c b e) = e - b"
  by (simp add: elements_def)

lemma elements_empty: "elements c b b = []"
  by (simp add: elements_def)

lemma elements_step:
  assumes "b < e" and "e \<le> length c"
  shows "elements c b e = c ! b # elements c (Suc b) e"
proof -
  from assms have "b < length c" by simp
  then have "drop b c = c ! b # drop (Suc b) c"
    by (simp add: Cons_nth_drop_Suc)
  moreover from assms have "e - b = Suc (e - Suc b)" by simp
  ultimately show ?thesis by (simp add: elements_def)
qed

lemma accumulate_valid:
  "b \<le> e \<Longrightarrow> e \<le> length c \<Longrightarrow> accumulate c b e init = Inr (init + sum_list (elements c b e))"
proof (induction c b e init rule: accumulate.induct)
  case (1 c first lst init)
  show ?case
  proof (cases "first = lst")
    case True
    then show ?thesis
      by (subst accumulate.simps) (simp add: elements_empty)
  next
    case False
    with "1.prems" have lt: "first < lst" and inside: "\<not> length c \<le> first" by simp_all
    from lt "1.prems" have "Suc first \<le> lst" by simp
    with "1.IH" [OF False inside] "1.prems"
    have "accumulate c (Suc first) lst (init + c ! first)
            = Inr (init + c ! first + sum_list (elements c (Suc first) lst))"
      by simp
    with False inside elements_step [OF lt "1.prems"(2)] show ?thesis
      by (subst accumulate.simps) simp
  qed
qed

section \<open>Properties of mean\<close>

lemma mean_valid:
  assumes "b < e" and "e \<le> length c"
  shows "mean c b e = Inr (sum_list (elements c b e) / real (length (elements c b e)))"
proof -
  from assms have acc: "accumulate c b e 0 = Inr (sum_list (elements c b e))"
    by (simp add: accumulate_valid)
  from assms have d: "real_of_int (distance b e) = real (length (elements c b e))"
    by (simp add: distance_def length_elements of_nat_diff)
  from assms have "real (length (elements c b e)) \<noteq> 0"
    by (simp add: length_elements)
  with acc d show ?thesis
    by (simp add: mean_def quotient_def)
qed

text \<open>
  C1. For every non-empty sequence of real numbers, \<open>mean\<close> returns the sum of all
  elements divided by the count of elements, in each of its three call shapes: over a
  non-empty range \<open>[b, e)\<close> of a container, over a non-empty vector and over a
  non-empty signal.
\<close>

theorem mean_is_sum_over_count:
  "(b < e \<and> e \<le> length c \<longrightarrow>
      mean c b e = Inr (sum_list (elements c b e) / real (length (elements c b e)))) \<and>
   (x \<noteq> [] \<longrightarrow> mean_vector x = Inr (sum_list x / real (length x))) \<and>
   (samples sg \<noteq> [] \<longrightarrow>
      mean_Signal sg = Inr (sum_list (samples sg) / real (length (samples sg))))"
proof (intro conjI impI)
  assume "b < e \<and> e \<le> length c"
  then show "mean c b e = Inr (sum_list (elements c b e) / real (length (elements c b e)))"
    by (simp add: mean_valid)
next
  assume "x \<noteq> []"
  then have "0 < length x" by simp
  from mean_valid [OF this order_refl] show "mean_vector x = Inr (sum_list x / real (length x))"
    by (simp add: mean_vector_def elements_whole)
next
  assume "samples sg \<noteq> []"
  then have "0 < length (samples sg)" by simp
  from mean_valid [OF this order_refl]
  show "mean_Signal sg = Inr (sum_list (samples sg) / real (length (samples sg)))"
    by (simp add: mean_Signal_def elements_whole)
qed

theorem mean_is_sum_over_count_witness:
  "mean [7, 1, 2, 6] 1 3 = Inr (3 / 2) \<and> mean_vector [1, 2, 3, 6] = Inr 3 \<and>
   mean_Signal (Signal [4, 6]) = Inr 5"
  using mean_is_sum_over_count [of 1 3 "[7, 1, 2, 6]" "[1, 2, 3, 6]" "Signal [4, 6]"]
  by (simp add: elements_def)

section \<open>Properties of var\<close>

lemma transform_reduce_valid:
  "b \<le> e \<Longrightarrow> e \<le> length c \<Longrightarrow>
     transform_reduce c b e init f = Inr (init + sum_list (map f (elements c b e)))"
proof (induction c b e init f rule: transform_reduce.induct)
  case (1 c first lst init f)
  show ?case
  proof (cases "first = lst")
    case True
    then show ?thesis
      by (subst transform_reduce.simps) (simp add: elements_empty)
  next
    case False
    with "1.prems" have lt: "first < lst" and inside: "\<not> length c \<le> first" by simp_all
    from lt "1.prems" have "Suc first \<le> lst" by simp
    with "1.IH" [OF False inside] "1.prems"
    have "transform_reduce c (Suc first) lst (init + f (c ! first)) f
            = Inr (init + f (c ! first) + sum_list (map f (elements c (Suc first) lst)))"
      by simp
    with False inside elements_step [OF lt "1.prems"(2)] show ?thesis
      by (subst transform_reduce.simps) simp
  qed
qed

text \<open>
  The order in which \<open>transform_reduce\<close> visits the elements does not matter: two
  containers holding the same values, in any order, give the same result.
\<close>

lemma transform_reduce_any_order:
  assumes "mset xs = mset ys"
  shows "transform_reduce xs 0 (length xs) init f = transform_reduce ys 0 (length ys) init f"
proof -
  have "sum_list (map f xs) = sum_mset (image_mset f (mset xs))"
    by (simp flip: sum_mset_sum_list)
  also have "\<dots> = sum_mset (image_mset f (mset ys))"
    using assms by simp
  also have "\<dots> = sum_list (map f ys)"
    by (simp flip: sum_mset_sum_list)
  finally show ?thesis
    by (simp add: transform_reduce_valid elements_whole)
qed

lemma mean_arithmetic:
  "b < e \<Longrightarrow> e \<le> length c \<Longrightarrow> mean c b e = Inr (arithmetic_mean (elements c b e))"
  by (simp add: mean_valid arithmetic_mean_def)

lemma second_pass:
  assumes "b < e" and "e \<le> length c"
  shows "transform_reduce c b e 0 (\<lambda>x. (x - arithmetic_mean (elements c b e)) ^ 2)
           = Inr (squared_deviations (elements c b e))"
  using assms by (simp add: transform_reduce_valid squared_deviations_def)

lemma squares_sum_valid:
  assumes "b < e" and "e \<le> length c"
  shows "squares_sum c b e (mean c b e) = Inr (squared_deviations (elements c b e))"
  by (simp add: squares_sum_def mean_arithmetic [OF assms] second_pass [OF assms])

lemma distance_valid:
  "b \<le> e \<Longrightarrow> e \<le> length c \<Longrightarrow> distance b e = int (length (elements c b e))"
  by (simp add: distance_def length_elements of_nat_diff)

lemma var_sample_valid:
  assumes "b + 2 \<le> e" and "e \<le> length c"
  shows "var c b e (Some sample)
           = Inr (squared_deviations (elements c b e) / (real (length (elements c b e)) - 1))"
proof -
  from assms have lt: "b < e" by simp
  from assms have "length (elements c b e) \<noteq> Suc 0"
    by (simp add: length_elements)
  then show ?thesis
    using distance_valid [of b e c] lt assms(2)
    by (simp add: var_def squares_sum_valid weight_arg_def quotient_def)
qed

lemma var_population_valid:
  assumes "b < e" and "e \<le> length c"
  shows "var c b e (Some population)
           = Inr (squared_deviations (elements c b e) / real (length (elements c b e)))"
proof -
  from assms have "length (elements c b e) \<noteq> 0"
    by (simp add: length_elements)
  then show ?thesis
    using distance_valid [of b e c] assms
    by (simp add: var_def squares_sum_valid weight_arg_def quotient_def)
qed

lemma squared_deviations_nonneg: "0 \<le> squared_deviations xs"
  unfolding squared_deviations_def by (rule sum_list_nonneg) auto

lemma var_single_sample:
  assumes "e = Suc b" and "e \<le> length c"
  shows "var c b e (Some sample) = Inl DivisionByZero"
proof -
  from assms have lt: "b < e" by simp
  from assms have "length (elements c b e) = Suc 0"
    by (simp add: length_elements)
  then show ?thesis
    using distance_valid [of b e c] lt assms(2)
    by (simp add: var_def squares_sum_valid weight_arg_def quotient_def)
qed

lemma mean_empty: "mean c b b = Inl DivisionByZero"
  by (simp add: mean_def accumulate.simps [of c b b] quotient_def distance_def)


text \<open>
  C2. For every sequence with at least two elements, \<open>var\<close> with sample weighting returns
  the sum of squared deviations from the mean divided by \<open>N - 1\<close>. The mean \<open>mu\<close> is
  computed by a first pass (\<open>mean\<close>) and the sum of squared deviations \<open>s\<close> by a second
  pass (\<open>transform_reduce\<close>) over the same range.
\<close>

theorem var_sample_two_pass:
  "(b + 2 \<le> e \<and> e \<le> length c \<longrightarrow>
      (\<exists>mu s. mean c b e = Inr mu \<and>
         mu = sum_list (elements c b e) / real (length (elements c b e)) \<and>
         transform_reduce c b e 0 (\<lambda>x. (x - mu) ^ 2) = Inr s \<and>
         s = (\<Sum>x\<leftarrow>elements c b e. (x - mu) ^ 2) \<and>
         var c b e (Some sample) = Inr (s / (real (length (elements c b e)) - 1)))) \<and>
   (2 \<le> length x \<longrightarrow>
      var_vector x (Some sample)
        = Inr ((\<Sum>v\<leftarrow>x. (v - sum_list x / real (length x)) ^ 2) / (real (length x) - 1))) \<and>
   (2 \<le> length (samples sg) \<longrightarrow>
      var_Signal sg (Some sample)
        = Inr ((\<Sum>v\<leftarrow>samples sg. (v - sum_list (samples sg) / real (length (samples sg))) ^ 2)
               / (real (length (samples sg)) - 1)))"
proof (intro conjI impI)
  assume a: "b + 2 \<le> e \<and> e \<le> length c"
  then have lt: "b < e" and le: "e \<le> length c" by simp_all
  let ?xs = "elements c b e"
  have "mean c b e = Inr (arithmetic_mean ?xs)"
    using lt le by (rule mean_arithmetic)
  moreover have "arithmetic_mean ?xs = sum_list ?xs / real (length ?xs)"
    by (simp add: arithmetic_mean_def)
  moreover have "transform_reduce c b e 0 (\<lambda>x. (x - arithmetic_mean ?xs) ^ 2)
                   = Inr (squared_deviations ?xs)"
    using lt le by (rule second_pass)
  moreover have "squared_deviations ?xs = (\<Sum>x\<leftarrow>?xs. (x - arithmetic_mean ?xs) ^ 2)"
    by (simp add: squared_deviations_def)
  moreover have "var c b e (Some sample)
                   = Inr (squared_deviations ?xs / (real (length ?xs) - 1))"
    using a by (simp add: var_sample_valid)
  ultimately show "\<exists>mu s. mean c b e = Inr mu \<and>
         mu = sum_list ?xs / real (length ?xs) \<and>
         transform_reduce c b e 0 (\<lambda>x. (x - mu) ^ 2) = Inr s \<and>
         s = (\<Sum>x\<leftarrow>?xs. (x - mu) ^ 2) \<and>
         var c b e (Some sample) = Inr (s / (real (length ?xs) - 1))"
    by blast
next
  assume "2 \<le> length x"
  then have "0 + 2 \<le> length x" by simp
  from var_sample_valid [OF this order_refl]
  show "var_vector x (Some sample)
        = Inr ((\<Sum>v\<leftarrow>x. (v - sum_list x / real (length x)) ^ 2) / (real (length x) - 1))"
    by (simp add: var_vector_def weight_arg_def elements_whole squared_deviations_def
        arithmetic_mean_def)
next
  assume "2 \<le> length (samples sg)"
  then have "0 + 2 \<le> length (samples sg)" by simp
  from var_sample_valid [OF this order_refl]
  show "var_Signal sg (Some sample)
        = Inr ((\<Sum>v\<leftarrow>samples sg. (v - sum_list (samples sg) / real (length (samples sg))) ^ 2)
               / (real (length (samples sg)) - 1))"
    by (simp add: var_Signal_def weight_arg_def elements_whole squared_deviations_def
        arithmetic_mean_def)
qed

theorem var_sample_two_pass_witness:
  "mean [9, 2, 4, 6, 0] 1 4 = Inr 4 \<and>
   transform_reduce [9, 2, 4, 6, 0] 1 4 0 (\<lambda>x. (x - 4) ^ 2) = Inr 8 \<and>
   var [9, 2, 4, 6, 0] 1 4 (Some sample) = Inr 4 \<and>
   var_vector [2, 4, 6] (Some sample) = Inr 4 \<and>
   var_Signal (Signal [1, 2]) (Some sample) = Inr (1 / 2)"
  using var_sample_two_pass [of 1 4 "[9, 2, 4, 6, 0]" "[2, 4, 6]" "Signal [1, 2]"]
  by (auto simp add: elements_def power2_eq_square)

text \<open>
  C3. For every sequence with at least one element, \<open>var\<close> with population weighting
  returns the sum of squared deviations from the mean divided by \<open>N\<close>.
\<close>

theorem var_population_formula:
  "(b < e \<and> e \<le> length c \<longrightarrow>
      (\<exists>mu. mean c b e = Inr mu \<and>
         mu = sum_list (elements c b e) / real (length (elements c b e)) \<and>
         var c b e (Some population)
           = Inr ((\<Sum>x\<leftarrow>elements c b e. (x - mu) ^ 2) / real (length (elements c b e))))) \<and>
   (1 \<le> length x \<longrightarrow>
      var_vector x (Some population)
        = Inr ((\<Sum>v\<leftarrow>x. (v - sum_list x / real (length x)) ^ 2) / real (length x))) \<and>
   (1 \<le> length (samples sg) \<longrightarrow>
      var_Signal sg (Some population)
        = Inr ((\<Sum>v\<leftarrow>samples sg. (v - sum_list (samples sg) / real (length (samples sg))) ^ 2)
               / real (length (samples sg))))"
proof (intro conjI impI)
  assume a: "b < e \<and> e \<le> length c"
  then have lt: "b < e" and le: "e \<le> length c" by simp_all
  let ?xs = "elements c b e"
  have "mean c b e = Inr (arithmetic_mean ?xs)"
    using lt le by (rule mean_arithmetic)
  moreover have "arithmetic_mean ?xs = sum_list ?xs / real (length ?xs)"
    by (simp add: arithmetic_mean_def)
  moreover have "var c b e (Some population)
                   = Inr ((\<Sum>x\<leftarrow>?xs. (x - arithmetic_mean ?xs) ^ 2) / real (length ?xs))"
    using lt le by (simp add: var_population_valid squared_deviations_def)
  ultimately show "\<exists>mu. mean c b e = Inr mu \<and>
         mu = sum_list ?xs / real (length ?xs) \<and>
         var c b e (Some population) = Inr ((\<Sum>x\<leftarrow>?xs. (x - mu) ^ 2) / real (length ?xs))"
    by blast
next
  assume "1 \<le> length x"
  then have "0 < length x" by (cases x) simp_all
  from var_population_valid [OF this order_refl]
  show "var_vector x (Some population)
        = Inr ((\<Sum>v\<leftarrow>x. (v - sum_list x / real (length x)) ^ 2) / real (length x))"
    by (simp add: var_vector_def weight_arg_def elements_whole squared_deviations_def
        arithmetic_mean_def)
next
  assume "1 \<le> length (samples sg)"
  then have "0 < length (samples sg)" by (cases "samples sg") simp_all
  from var_population_valid [OF this order_refl]
  show "var_Signal sg (Some population)
        = Inr ((\<Sum>v\<leftarrow>samples sg. (v - sum_list (samples sg) / real (length (samples sg))) ^ 2)
               / real (length (samples sg)))"
    by (simp add: var_Signal_def weight_arg_def elements_whole squared_deviations_def
        arithmetic_mean_def)
qed

theorem var_population_formula_witness:
  "mean [9, 2, 4, 6, 0] 1 4 = Inr 4 \<and>
   var [9, 2, 4, 6, 0] 1 4 (Some population) = Inr (8 / 3) \<and>
   var_vector [7] (Some population) = Inr 0 \<and>
   var_Signal (Signal [1, 2]) (Some population) = Inr (1 / 4)"
  using var_population_formula [of 1 4 "[9, 2, 4, 6, 0]" "[7]" "Signal [1, 2]"]
  by (auto simp add: elements_def power2_eq_square)

section \<open>The empty range\<close>

lemma var_empty_sample: "var c b b (Some sample) = Inr 0"
  by (simp add: var_def squares_sum_def mean_empty weight_arg_def quotient_def distance_def)

lemma var_empty_population: "var c b b (Some population) = Inl DivisionByZero"
  by (simp add: var_def squares_sum_def mean_empty weight_arg_def quotient_def distance_def)

section \<open>Weighting and size\<close>

lemma weight_arg_Some: "weight_arg (Some (weight_arg w)) = weight_arg w"
  by (simp add: weight_arg_def)

lemma var_weight_arg: "var c b e (Some (weight_arg w)) = var c b e w"
  unfolding var_def weight_arg_Some by (rule refl)

lemma var_well_sized:
  assumes "b \<le> e" and "e \<le> length c" and "well_sized (elements c b e) (weight_arg w)"
  shows "var c b e w = Inr (variance_formula (elements c b e) (weight_arg w))"
proof (cases "weight_arg w")
  case sample
  with assms have "b + 2 \<le> e"
    by (simp add: well_sized_def length_elements)
  from var_sample_valid [OF this assms(2)] sample show ?thesis
    using var_weight_arg [of c b e w] by (simp add: variance_formula_def)
next
  case population
  with assms have "b < e"
    by (simp add: well_sized_def length_elements)
  from var_population_valid [OF this assms(2)] population show ?thesis
    using var_weight_arg [of c b e w] by (simp add: variance_formula_def)
qed

lemma variance_formula_nonneg:
  assumes "well_sized xs w"
  shows "0 \<le> variance_formula xs w"
proof (cases w)
  case sample
  with assms have "0 < real (length xs) - 1" by (simp add: well_sized_def)
  with squared_deviations_nonneg [of xs] sample show ?thesis
    by (simp add: variance_formula_def)
next
  case population
  with squared_deviations_nonneg [of xs] show ?thesis
    by (simp add: variance_formula_def)
qed

lemma var_nonneg:
  assumes "b \<le> e" and "e \<le> length c" and "well_sized (elements c b e) (weight_arg w)"
  shows "\<exists>v. var c b e w = Inr v \<and> 0 \<le> v \<and> c_sqrt v = Inr (sqrt v) \<and> 0 \<le> sqrt v"
proof -
  let ?v = "variance_formula (elements c b e) (weight_arg w)"
  have "var c b e w = Inr ?v" using assms by (rule var_well_sized)
  moreover have nn: "0 \<le> ?v" using assms(3) by (rule variance_formula_nonneg)
  moreover from nn have "c_sqrt ?v = Inr (sqrt ?v)" by (simp add: c_sqrt_def)
  moreover from nn have "0 \<le> sqrt ?v" by simp
  ultimately show ?thesis by blast
qed

lemma var_vector_whole: "var_vector x w = var x 0 (length x) w"
  by (simp add: var_vector_def var_weight_arg)

lemma var_Signal_whole: "var_Signal sg w = var (samples sg) 0 (length (samples sg)) w"
  by (simp add: var_Signal_def var_weight_arg)

section \<open>std has no instantiation\<close>

lemma std_no_instance: "std c b e w = Inl NoViableOverload"
  by (simp add: std_def var_undeduced_def)

lemma std_vector_no_instance: "std_vector x w = Inl NoViableOverload"
  by (simp add: std_vector_def std_no_instance)

lemma std_Signal_no_instance: "std_Signal sg w = Inl NoViableOverload"
  by (simp add: std_Signal_def std_no_instance)




section \<open>The three call shapes\<close>






lemma mean_Signal_whole: "mean_Signal (Signal x) = mean x 0 (length x)"
  by (simp add: mean_Signal_def)



section \<open>std and the square root of var\<close>

text \<open>
  C4. The claim: for every sequence and weighting of the size that the weighting asks
  for, \<open>std\<close> returns the non-negative square root of what \<open>var\<close> returns, in every
  call shape. On \<open>[2, 4, 6]\<close> with sample weighting \<open>var\<close> returns \<open>4\<close>, whose
  square root is \<open>2\<close>; \<open>std\<close> returns nothing in any of its three shapes, because
  the call of \<open>var\<close> in its body has no viable overload.
\<close>

theorem std_two_four_six:
  "var [2, 4, 6] 0 3 (Some sample) = Inr 4 \<and> c_sqrt 4 = Inr 2 \<and>
   std [2, 4, 6] 0 3 (Some sample) = Inl NoViableOverload \<and>
   std_vector [2, 4, 6] (Some sample) = Inl NoViableOverload \<and>
   std_Signal (Signal [2, 4, 6]) (Some sample) = Inl NoViableOverload"
proof -
  have "var [2, 4, 6] 0 3 (Some sample) = Inr 4"
    using var_sample_valid [of 0 3 "[2, 4, 6]"]
    by (simp add: elements_def squared_deviations_def arithmetic_mean_def)
  moreover have "c_sqrt 4 = Inr 2" by (simp add: c_sqrt_def)
  ultimately show ?thesis
    by (simp add: std_no_instance std_vector_no_instance std_Signal_no_instance)
qed

section \<open>Well-sized input\<close>

lemma floor_log2:
  assumes "2 powi k \<le> x" and "x < 2 powi (k + 1)"
  shows "\<lfloor>log 2 x\<rfloor> = k"
proof -
  have "0 < (2::real) powi k" by simp
  with assms have "0 < x" by linarith
  moreover have "(2::real) powr real_of_int k = 2 powi k"
    by (simp add: powr_real_of_int')
  moreover have "(2::real) powr real_of_int (k + 1) = 2 powi (k + 1)"
    by (rule powr_real_of_int') simp_all
  ultimately show ?thesis
    using assms by (simp only: floor_log_eq_powr_iff [of x 2 k])
qed

lemma round_double_binade:
  assumes "2 powi k \<le> \<bar>x\<bar>" and "\<bar>x\<bar> < 2 powi (k + 1)" and "- 1022 \<le> k"
  shows "round_double x =
     (let u = 2 powi (k - 52); y = of_int (nearest_even (x / u)) * u
      in if double_max < y then PlusInf
         else if y < - double_max then MinusInf
         else Finite y)"
proof -
  have "0 < (2::real) powi k" by simp
  with assms(1) have "0 < \<bar>x\<bar>" by linarith
  then have "x \<noteq> 0" by simp
  moreover have "ulp_exponent x = k - 52"
    using floor_log2 [OF assms(1,2)] assms(3) by (simp add: ulp_exponent_def)
  ultimately show ?thesis by (simp add: round_double_def)
qed

lemma round_double_2_1023: "round_double (2 ^ 1023) = Finite (2 ^ 1023)"
  using round_double_binade [of 1023 "2 ^ 1023"]
  by (simp add: nearest_even_def double_max_def Let_def)

lemma round_double_2_1024: "round_double (2 ^ 1023 + 2 ^ 1023) = PlusInf"
  using round_double_binade [of 1024 "2 ^ 1023 + 2 ^ 1023"]
  by (simp add: nearest_even_def double_max_def Let_def)

lemma round_double_two: "round_double 2 = Finite 2"
  using round_double_binade [of 1 2]
  by (simp add: nearest_even_def double_max_def Let_def power_int_minus)

lemma accumulate_double_drop:
  "b \<le> length c \<Longrightarrow>
     accumulate_double c b (length c) init = Inr (foldl double_add init (drop b c))"
proof (induction c b "length c" init rule: accumulate_double.induct)
  case (1 c first init)
  show ?case
  proof (cases "first = length c")
    case True
    then show ?thesis by (subst accumulate_double.simps) simp
  next
    case False
    with "1.prems" have lt: "first < length c" by simp
    then have inside: "\<not> length c \<le> first" by simp
    from lt have d: "drop first c = c ! first # drop (Suc first) c"
      by (simp add: Cons_nth_drop_Suc)
    from lt have "Suc first \<le> length c" by simp
    with "1.hyps" [OF False inside]
    have "accumulate_double c (Suc first) (length c) (double_add init (c ! first))
            = Inr (foldl double_add (double_add init (c ! first)) (drop (Suc first) c))"
      by simp
    with False inside d show ?thesis
      by (subst accumulate_double.simps) simp
  qed
qed

lemma accumulate_double_whole:
  "accumulate_double c 0 (length c) init = Inr (foldl double_add init c)"
  using accumulate_double_drop [of 0 c init] by simp

text \<open>
  A check of the rounding: at \<^verbatim>\<open>double\<close> the mean of five copies of \<open>2\<^sup>5\<^sup>3 - 1\<close> is
  \<open>2\<^sup>5\<^sup>3 - 2\<close>, the third and the later sums and the quotient being rounded.
\<close>

lemma round_double_s1: "round_double (2 ^ 53 - 1) = Finite (2 ^ 53 - 1)"
  using round_double_binade [of 52 "2 ^ 53 - 1"]
  by (simp add: nearest_even_def double_max_def Let_def)

lemma round_double_s2: "round_double ((2 ^ 53 - 1) + (2 ^ 53 - 1)) = Finite (2 ^ 54 - 2)"
  using round_double_binade [of 53 "(2 ^ 53 - 1) + (2 ^ 53 - 1)"]
  by (simp add: nearest_even_def double_max_def Let_def)

lemma round_double_s3: "round_double ((2 ^ 54 - 2) + (2 ^ 53 - 1)) = Finite (3 * 2 ^ 53 - 4)"
  using round_double_binade [of 54 "(2 ^ 54 - 2) + (2 ^ 53 - 1)"]
  by (simp add: nearest_even_def double_max_def Let_def)

lemma round_double_s4: "round_double ((3 * 2 ^ 53 - 4) + (2 ^ 53 - 1)) = Finite (2 ^ 55 - 4)"
  using round_double_binade [of 54 "(3 * 2 ^ 53 - 4) + (2 ^ 53 - 1)"]
  by (simp add: nearest_even_def double_max_def Let_def)

lemma round_double_s5: "round_double ((2 ^ 55 - 4) + (2 ^ 53 - 1)) = Finite (5 * 2 ^ 53 - 8)"
  using round_double_binade [of 55 "(2 ^ 55 - 4) + (2 ^ 53 - 1)"]
  by (simp add: nearest_even_def double_max_def Let_def)

lemma round_double_five: "round_double 5 = Finite 5"
  using round_double_binade [of 2 5]
  by (simp add: nearest_even_def double_max_def Let_def power_int_minus)

lemma round_double_quotient: "round_double ((5 * 2 ^ 53 - 8) / 5) = Finite (2 ^ 53 - 2)"
  using round_double_binade [of 52 "(5 * 2 ^ 53 - 8) / 5"]
  by (simp add: nearest_even_def double_max_def Let_def)

lemma mean_double_rounds:
  "mean_double (replicate 5 (Finite (2 ^ 53 - 1))) 0 5 = Inr (Finite (2 ^ 53 - 2))"
proof -
  let ?a = "Finite (2 ^ 53 - 1)"
  have rep: "replicate 5 ?a = [?a, ?a, ?a, ?a, ?a]" by (simp add: eval_nat_numeral)
  have s1: "double_add (Finite 0) ?a = ?a" using round_double_s1 by simp
  have s2: "double_add ?a ?a = Finite (2 ^ 54 - 2)" using round_double_s2 by simp
  have s3: "double_add (Finite (2 ^ 54 - 2)) ?a = Finite (3 * 2 ^ 53 - 4)" using round_double_s3 by simp
  have s4: "double_add (Finite (3 * 2 ^ 53 - 4)) ?a = Finite (2 ^ 55 - 4)" using round_double_s4 by simp
  have s5: "double_add (Finite (2 ^ 55 - 4)) ?a = Finite (5 * 2 ^ 53 - 8)" using round_double_s5 by simp
  have "accumulate_double (replicate 5 ?a) 0 (length (replicate 5 ?a)) (Finite 0)
          = Inr (Finite (5 * 2 ^ 53 - 8))"
    unfolding accumulate_double_whole rep foldl.simps s1 s2 s3 s4 s5 by (rule refl)
  then have "accumulate_double (replicate 5 ?a) 0 5 (Finite 0) = Inr (Finite (5 * 2 ^ 53 - 8))"
    by simp
  then show ?thesis
    using round_double_five round_double_quotient by (simp add: mean_double_def distance_def)
qed

text \<open>
  C6, the claim as stated: every input of the size that the operation asks for makes the
  computation succeed and return a finite value equal to the mathematical definition.
  It fails in two ways. At the sample type \<^verbatim>\<open>double\<close> the two finite samples
  \<open>2\<^sup>1\<^sup>0\<^sup>2\<^sup>3\<close> and \<open>2\<^sup>1\<^sup>0\<^sup>2\<^sup>3\<close>, whose mean is \<open>2\<^sup>1\<^sup>0\<^sup>2\<^sup>3\<close>, have a sum that overflows, and
  \<open>mean\<close> returns \<open>+\<infinity>\<close>: nothing in the source guards the sum. And \<open>std\<close> on the
  well-sized vector \<open>[1, 3]\<close> returns nothing.
\<close>

theorem well_sized_not_finite:
  "round_double (2 ^ 1023) = Finite (2 ^ 1023) \<and>
   mean_vector [2 ^ 1023, 2 ^ 1023] = Inr (2 ^ 1023) \<and>
   mean_double [Finite (2 ^ 1023), Finite (2 ^ 1023)] 0 2 = Inr PlusInf \<and>
   well_sized [1, 3] population \<and>
   std_vector [1, 3] (Some population) = Inl NoViableOverload"
proof -
  have mv: "mean_vector [2 ^ 1023, 2 ^ 1023] = Inr (2 ^ 1023)"
    using mean_valid [of 0 "Suc (Suc 0)" "[2 ^ 1023, 2 ^ 1023]"]
    by (simp add: mean_vector_def elements_def)
  have "double_add (Finite 0) (Finite (2 ^ 1023)) = Finite (2 ^ 1023)"
    using round_double_2_1023 by simp
  then have "foldl double_add (Finite 0) [Finite (2 ^ 1023), Finite (2 ^ 1023)] = PlusInf"
    using round_double_2_1024 by simp
  then have "accumulate_double [Finite (2 ^ 1023), Finite (2 ^ 1023)] 0
               (length [Finite (2 ^ 1023), Finite (2 ^ 1023)]) (Finite 0) = Inr PlusInf"
    by (simp only: accumulate_double_whole)
  moreover have "length [Finite (2 ^ 1023), Finite (2 ^ 1023)] = 2" by simp
  ultimately have "accumulate_double [Finite (2 ^ 1023), Finite (2 ^ 1023)] 0 2 (Finite 0)
                     = Inr PlusInf"
    by (simp only:)
  then have md: "mean_double [Finite (2 ^ 1023), Finite (2 ^ 1023)] 0 2 = Inr PlusInf"
    using round_double_two by (simp add: mean_double_def distance_def)
  have ws: "well_sized [1, 3] population" by (simp add: well_sized_def)
  from mv md ws show ?thesis
    using round_double_2_1023 by (simp add: std_vector_no_instance)
qed

text \<open>
  C6, as amended. For every input of the size that \<open>mean\<close> or \<open>var\<close> asks for
  (non-empty for \<open>mean\<close>, \<open>well_sized\<close> for \<open>var\<close>), the computation reaches no
  division by zero or other fault and, with the arithmetic taken over the real numbers,
  returns the value of the mathematical definition (\<open>arithmetic_mean\<close>,
  \<open>variance_formula\<close>), in each call shape. Nothing is said of a machine format, where
  the value need not be finite, nor of \<open>std\<close>.
\<close>

theorem well_sized_input_succeeds:
  "(b < e \<and> e \<le> length c \<longrightarrow> mean c b e = Inr (arithmetic_mean (elements c b e))) \<and>
   (b \<le> e \<and> e \<le> length c \<and> well_sized (elements c b e) (weight_arg w) \<longrightarrow>
      var c b e w = Inr (variance_formula (elements c b e) (weight_arg w))) \<and>
   (x \<noteq> [] \<longrightarrow> mean_vector x = Inr (arithmetic_mean x)) \<and>
   (well_sized x (weight_arg w) \<longrightarrow>
      var_vector x w = Inr (variance_formula x (weight_arg w))) \<and>
   (samples sg \<noteq> [] \<longrightarrow> mean_Signal sg = Inr (arithmetic_mean (samples sg))) \<and>
   (well_sized (samples sg) (weight_arg w) \<longrightarrow>
      var_Signal sg w = Inr (variance_formula (samples sg) (weight_arg w)))"
proof (intro conjI impI)
  assume "b < e \<and> e \<le> length c"
  then show "mean c b e = Inr (arithmetic_mean (elements c b e))"
    by (simp add: mean_arithmetic)
next
  assume a: "b \<le> e \<and> e \<le> length c \<and> well_sized (elements c b e) (weight_arg w)"
  then show "var c b e w = Inr (variance_formula (elements c b e) (weight_arg w))"
    by (elim conjE) (rule var_well_sized)
next
  assume "x \<noteq> []"
  then have "0 < length x" by simp
  from mean_arithmetic [OF this order_refl] show "mean_vector x = Inr (arithmetic_mean x)"
    by (simp add: mean_vector_def elements_whole)
next
  assume "well_sized x (weight_arg w)"
  then have ws: "well_sized (elements x 0 (length x)) (weight_arg w)"
    by (simp add: elements_whole)
  from var_well_sized [OF _ order_refl ws]
  show "var_vector x w = Inr (variance_formula x (weight_arg w))"
    by (simp add: var_vector_whole elements_whole)
next
  assume "samples sg \<noteq> []"
  then have "0 < length (samples sg)" by simp
  from mean_arithmetic [OF this order_refl]
  show "mean_Signal sg = Inr (arithmetic_mean (samples sg))"
    by (simp add: mean_Signal_def elements_whole)
next
  assume "well_sized (samples sg) (weight_arg w)"
  then have ws: "well_sized (elements (samples sg) 0 (length (samples sg))) (weight_arg w)"
    by (simp add: elements_whole)
  from var_well_sized [OF _ order_refl ws]
  show "var_Signal sg w = Inr (variance_formula (samples sg) (weight_arg w))"
    by (simp add: var_Signal_whole elements_whole)
qed

theorem well_sized_input_succeeds_witness:
  "mean [9, 1, 3, 0] 1 3 = Inr 2 \<and>
   var [9, 1, 3, 0] 1 3 (Some population) = Inr 1 \<and>
   mean_vector [1, 3] = Inr 2 \<and>
   var_vector [1, 3] (Some population) = Inr 1 \<and>
   mean_Signal (Signal [1, 3]) = Inr 2 \<and>
   var_Signal (Signal [1, 3]) (Some population) = Inr 1"
  using well_sized_input_succeeds
    [of 1 3 "[9, 1, 3, 0]" "Some population" "[1, 3]" "Signal [1, 3]"]
  by (simp add: elements_def well_sized_def weight_arg_def variance_formula_def
      squared_deviations_def arithmetic_mean_def)

section \<open>Single-element sequences\<close>

lemma var_single_population: "var [x] 0 (Suc 0) (Some population) = Inr 0"
  using var_population_valid [of 0 "Suc 0" "[x]"]
  by (simp add: elements_def squared_deviations_def arithmetic_mean_def)

lemma var_single_sample_whole: "var [x] 0 (Suc 0) (Some sample) = Inl DivisionByZero"
  by (rule var_single_sample) simp_all

text \<open>
  C7. For every single-element sequence \<open>[x]\<close>: with population weighting \<open>var\<close>
  returns \<open>0\<close>, whose square root is \<open>0\<close>; with sample weighting the mean is \<open>x\<close>,
  the sum of squared deviations is \<open>0\<close>, the divisor \<open>N - 1\<close> is \<open>0\<close>, and the
  division has no value: \<open>var\<close> ends in \<open>DivisionByZero\<close>. The claim also gives \<open>std\<close>
  the value \<open>0\<close> under population weighting; \<open>std\<close> returns nothing, because the
  call of \<open>var\<close> in its body has no viable overload.
\<close>

theorem single_element:
  "var [x] 0 1 (Some population) = Inr 0 \<and>
   var_vector [x] (Some population) = Inr 0 \<and>
   var_Signal (Signal [x]) (Some population) = Inr 0 \<and>
   c_sqrt 0 = Inr 0 \<and>
   mean [x] 0 1 = Inr x \<and>
   transform_reduce [x] 0 1 0 (\<lambda>v. (v - x) ^ 2) = Inr 0 \<and>
   real_of_int (distance 0 (length [x]) - 1) = 0 \<and>
   var [x] 0 1 (Some sample) = Inl DivisionByZero \<and>
   var_vector [x] (Some sample) = Inl DivisionByZero \<and>
   var_Signal (Signal [x]) (Some sample) = Inl DivisionByZero \<and>
   std [x] 0 1 (Some population) = Inl NoViableOverload \<and>
   std_vector [x] (Some population) = Inl NoViableOverload \<and>
   std_Signal (Signal [x]) (Some population) = Inl NoViableOverload"
proof -
  have m: "mean [x] 0 (Suc 0) = Inr x"
    using mean_valid [of 0 "Suc 0" "[x]"] by (simp add: elements_def)
  have t: "transform_reduce [x] 0 (Suc 0) 0 (\<lambda>v. (v - x) ^ 2) = Inr 0"
    by (simp add: transform_reduce_valid elements_def)
  have d: "real_of_int (distance 0 (length [x]) - 1) = 0"
    by (simp add: distance_def)
  have r: "c_sqrt 0 = Inr 0" by (simp add: c_sqrt_def)
  show ?thesis
    using m t d r
    by (simp add: var_single_population var_single_sample_whole
        var_vector_whole var_Signal_whole
        std_no_instance std_vector_no_instance std_Signal_no_instance)
qed

section \<open>A worked example\<close>

lemma sqrt_five_halves: "\<bar>sqrt (5 / 2) - 1.5811\<bar> < 0.00005"
proof -
  have "(1.58105 :: real) ^ 2 < 5 / 2" by (simp add: power2_eq_square)
  then have lo: "1.58105 < sqrt (5 / 2)" by (rule real_less_rsqrt)
  have "(5 / 2 :: real) < 1.58115 ^ 2" by (simp add: power2_eq_square)
  then have hi: "sqrt (5 / 2) < 1.58115" by (intro real_less_lsqrt) simp_all
  from lo hi show ?thesis unfolding abs_less_iff by simp
qed

lemma sqrt_two: "\<bar>sqrt 2 - 1.4142\<bar> < 0.00005"
proof -
  have "(1.41415 :: real) ^ 2 < 2" by (simp add: power2_eq_square)
  then have lo: "1.41415 < sqrt 2" by (rule real_less_rsqrt)
  have "(2 :: real) < 1.41425 ^ 2" by (simp add: power2_eq_square)
  then have hi: "sqrt 2 < 1.41425" by (intro real_less_lsqrt) simp_all
  from lo hi show ?thesis unfolding abs_less_iff by simp
qed

text \<open>
  C8. For the sequence \<open>[1, 2, 3, 4, 5]\<close>: the mean is \<open>3\<close>, the sample variance is
  \<open>5/2\<close> and the population variance is \<open>2\<close>; their square roots exist and are
  \<open>1.5811\<close> and \<open>1.4142\<close> to four decimals. The claim gives these roots as the
  values of \<open>std\<close>; \<open>std\<close> returns nothing, because the call of \<open>var\<close> in its body
  has no viable overload.
\<close>

theorem one_to_five:
  "mean_vector [1, 2, 3, 4, 5] = Inr 3 \<and>
   var_vector [1, 2, 3, 4, 5] (Some sample) = Inr (5 / 2) \<and>
   var_vector [1, 2, 3, 4, 5] (Some population) = Inr 2 \<and>
   c_sqrt (5 / 2) = Inr (sqrt (5 / 2)) \<and> c_sqrt 2 = Inr (sqrt 2) \<and>
   \<bar>sqrt (5 / 2) - 1.5811\<bar> < 0.00005 \<and> \<bar>sqrt 2 - 1.4142\<bar> < 0.00005 \<and>
   std_vector [1, 2, 3, 4, 5] (Some sample) = Inl NoViableOverload \<and>
   std_vector [1, 2, 3, 4, 5] (Some population) = Inl NoViableOverload"
proof -
  let ?S = "[1, 2, 3, 4, 5] :: real list"
  have len: "length ?S = 5" by simp
  have el: "elements ?S 0 5 = ?S" using elements_whole [of ?S] by (simp only: len)
  have am: "arithmetic_mean ?S = 3" by (simp add: arithmetic_mean_def)
  have sd: "squared_deviations ?S = 10" by (simp add: squared_deviations_def am)
  have m: "mean ?S 0 5 = Inr 3"
    using mean_arithmetic [of 0 5 ?S] by (simp add: el am)
  have vs: "var ?S 0 5 (Some sample) = Inr (5 / 2)"
    using var_sample_valid [of 0 5 ?S] by (simp add: el sd)
  have vp: "var ?S 0 5 (Some population) = Inr 2"
    using var_population_valid [of 0 5 ?S] by (simp add: el sd)
  have "mean_vector ?S = Inr 3"
    unfolding mean_vector_def len by (rule m)
  moreover have "var_vector ?S (Some sample) = Inr (5 / 2)"
    unfolding var_vector_whole len by (rule vs)
  moreover have "var_vector ?S (Some population) = Inr 2"
    unfolding var_vector_whole len by (rule vp)
  moreover have "c_sqrt (5 / 2) = Inr (sqrt (5 / 2))" "c_sqrt 2 = Inr (sqrt 2)"
    by (simp_all add: c_sqrt_def)
  ultimately show ?thesis
    using sqrt_five_halves sqrt_two by (simp add: std_vector_no_instance)
qed

section \<open>The default weighting\<close>





section \<open>Non-negativity\<close>

text \<open>
  C10. The claim: for every sequence of the size that the weighting asks for, \<open>var\<close>
  returns a non-negative value, so \<open>std\<close> takes the square root of a non-negative
  argument and returns a non-negative value. The first half holds (\<open>var_nonneg\<close>
  above). On \<open>[1, 3]\<close> \<open>var\<close> returns \<open>1\<close> (population) and \<open>2\<close> (sample), both
  with a square root; \<open>std\<close> returns nothing, because the call of \<open>var\<close> in its body
  has no viable overload.
\<close>

theorem var_nonneg_std_one_three:
  "var_vector [1, 3] (Some population) = Inr 1 \<and> c_sqrt 1 = Inr 1 \<and>
   var_vector [1, 3] (Some sample) = Inr 2 \<and> c_sqrt 2 = Inr (sqrt 2) \<and>
   std_vector [1, 3] (Some population) = Inl NoViableOverload \<and>
   std_vector [1, 3] (Some sample) = Inl NoViableOverload"
proof -
  have "var [1, 3] 0 (Suc (Suc 0)) (Some population) = Inr 1"
    using var_population_valid [of 0 "Suc (Suc 0)" "[1, 3]"]
    by (simp add: elements_def squared_deviations_def arithmetic_mean_def)
  moreover have "var [1, 3] 0 (Suc (Suc 0)) (Some sample) = Inr 2"
    using var_sample_valid [of 0 "Suc (Suc 0)" "[1, 3]"]
    by (simp add: elements_def squared_deviations_def arithmetic_mean_def)
  ultimately show ?thesis
    by (simp add: var_vector_whole c_sqrt_def std_vector_no_instance)
qed

end
